theory Spec2Isabelle
  imports Complex_Main
begin

section \<open>JavaScript values\<close>

text \<open>
  The client page and the API routes handle values that come out of \<^verbatim>\<open>JSON.parse\<close>,
  \<^verbatim>\<open>request.json()\<close> and \<^verbatim>\<open>response.json()\<close>. They are untyped at run time, so the
  model keeps them as a datatype of JavaScript values. A number is a finite real, an
  infinity or NaN; arithmetic on numbers is never done by the modelled code except in
  \<^verbatim>\<open>formatFileSize\<close>, where it is taken as a parameter.
\<close>

datatype jsnum = NaN | Infinite bool | Finite real

datatype jsval =
    JUndefined
  | JNull
  | JBool bool
  | JNum jsnum
  | JStr string
  | JArr "jsval list"
  | JObj "(string \<times> jsval) list"

text \<open>Truthiness of a number: \<^verbatim>\<open>!n\<close> holds for \<^verbatim>\<open>NaN\<close>, \<^verbatim>\<open>0\<close> and \<^verbatim>\<open>-0\<close>.\<close>

fun truthy_num :: "jsnum \<Rightarrow> bool" where
  "truthy_num NaN = False"
| "truthy_num (Infinite s) = True"
| "truthy_num (Finite r) = (r \<noteq> 0)"

text \<open>Truthiness of a value, as \<^verbatim>\<open>if (v)\<close>, \<^verbatim>\<open>!v\<close> and \<^verbatim>\<open>v || w\<close> test it.\<close>

fun truthy :: "jsval \<Rightarrow> bool" where
  "truthy JUndefined = False"
| "truthy JNull = False"
| "truthy (JBool b) = b"
| "truthy (JNum n) = truthy_num n"
| "truthy (JStr s) = (s \<noteq> [])"
| "truthy (JArr xs) = True"
| "truthy (JObj kvs) = True"

text \<open>\<^verbatim>\<open>a || b\<close>: the first operand when it is truthy, the second otherwise.\<close>

definition js_or :: "jsval \<Rightarrow> jsval \<Rightarrow> jsval" where
  "js_or a b = (if truthy a then a else b)"

text \<open>
  Property access \<^verbatim>\<open>v.k\<close> and destructuring \<^verbatim>\<open>const { k } = v\<close>: a TypeError
  (\<open>None\<close>) on \<^verbatim>\<open>null\<close> and \<^verbatim>\<open>undefined\<close>, the stored value on an object that has
  the key, \<^verbatim>\<open>undefined\<close> otherwise. None of the keys the code reads is a property
  of a string, number, boolean or array.
\<close>

fun get_prop :: "jsval \<Rightarrow> string \<Rightarrow> jsval option" where
  "get_prop JUndefined k = None"
| "get_prop JNull k = None"
| "get_prop (JObj kvs) k = Some (case map_of kvs k of None \<Rightarrow> JUndefined | Some v \<Rightarrow> v)"
| "get_prop v k = Some JUndefined"

section \<open>formatFileSize (app/page.tsx)\<close>

text \<open>
  \<^verbatim>\<open>
  const formatFileSize = (bytes?: number) => {
    if (!bytes) return 'Unknown size';
    const sizes = ['Bytes', 'KB', 'MB', 'GB'];
    if (bytes === 0) return '0 Byte';
    const i = parseInt(Math.floor(Math.log(bytes) / Math.log(1024)).toString());
    return Math.round(bytes / Math.pow(1024, i) * 100) / 100 + ' ' + sizes[i];
  };
  \<close>
  The argument is a number or \<^verbatim>\<open>undefined\<close> (\<open>None\<close>). The two floating-point
  computations are parameters of the model: \<open>logIndex\<close> is the value of \<^verbatim>\<open>i\<close>
  (an integer, or \<open>None\<close> for NaN), and \<open>rounded\<close> is the text of the rounded quotient.
  Indexing \<^verbatim>\<open>sizes\<close> outside \<open>0..3\<close> gives \<^verbatim>\<open>undefined\<close>, which the string
  concatenation prints as the word.
\<close>

definition sizes :: "string list" where
  "sizes = [''Bytes'', ''KB'', ''MB'', ''GB'']"

definition sizes_at :: "int option \<Rightarrow> string" where
  "sizes_at i =
     (case i of
        None \<Rightarrow> ''undefined''
      | Some k \<Rightarrow> if 0 \<le> k \<and> nat k < length sizes then sizes ! nat k else ''undefined'')"

definition formatFileSize ::
  "(jsnum \<Rightarrow> int option) \<Rightarrow> (jsnum \<Rightarrow> int option \<Rightarrow> string) \<Rightarrow> jsnum option \<Rightarrow> string" where
  "formatFileSize logIndex rounded bytes =
     (case bytes of
        None \<Rightarrow> ''Unknown size''
      | Some b \<Rightarrow>
          if \<not> truthy_num b then ''Unknown size''
          else if b = Finite 0 then ''0 Byte''
          else (let i = logIndex b in rounded b i @ '' '' @ sizes_at i))"

section \<open>HTTP: fetch and NextResponse\<close>

text \<open>
  A call of \<^verbatim>\<open>fetch\<close> is a request; the network answers it by rejecting the promise or
  by a response. Of a response the code reads \<^verbatim>\<open>ok\<close>, \<^verbatim>\<open>status\<close>,
  \<^verbatim>\<open>json()\<close> and \<^verbatim>\<open>blob()\<close>; the last two reject (\<open>None\<close>) when the body cannot
  be read; a blob is its bytes. The network is a parameter of every handler, and a
  handler returns the calls it made beside its result, so that "no backend call" is a
  statement about the model. The body of a request is the value handed to
  \<^verbatim>\<open>JSON.stringify\<close>.
\<close>

record fetch_request =
  req_url :: string
  req_method :: string
  req_headers :: "(string \<times> string) list"
  req_body :: "jsval option"

type_synonym blob = "nat list"

record fetch_response =
  resp_status :: nat
  resp_json :: "jsval option"
  resp_blob :: "blob option"

text \<open>\<^verbatim>\<open>response.ok\<close>: the status is in the range 200 to 299.\<close>

definition resp_ok :: "fetch_response \<Rightarrow> bool" where
  "resp_ok r = (200 \<le> resp_status r \<and> resp_status r \<le> 299)"

datatype fetch_result = Rejected | Resolved fetch_response

type_synonym network = "fetch_request \<Rightarrow> fetch_result"

definition post_json :: "string \<Rightarrow> jsval \<Rightarrow> fetch_request" where
  "post_json u b =
     \<lparr>req_url = u, req_method = ''POST'',
      req_headers = [(''Content-Type'', ''application/json'')], req_body = Some b\<rparr>"

datatype res_body = JsonBody jsval | BlobBody blob

record NextResponse =
  status_code :: nat
  headers :: "(string \<times> string) list"
  body :: res_body

text \<open>
  \<^verbatim>\<open>NextResponse.json(data, { status })\<close>; the status is 200 when none is given. Only
  the headers that the source sets are kept in the model.
\<close>

definition NextResponse_json :: "jsval \<Rightarrow> nat \<Rightarrow> NextResponse" where
  "NextResponse_json data st = \<lparr>status_code = st, headers = [], body = JsonBody data\<rparr>"

text \<open>
  Building a response with a body throws for a status outside 200 to 599 (RangeError)
  and for a status that allows no body (TypeError): 204, 205 and 304 within that range.
  The statuses 200, 400 and 500 that the routes write themselves never throw.
\<close>

definition response_init_throws :: "nat \<Rightarrow> bool" where
  "response_init_throws st = (st < 200 \<or> 599 < st \<or> st = 204 \<or> st = 205 \<or> st = 304)"

text \<open>
  Setting a header throws a TypeError when its value holds a NUL, a line feed or a
  carriage return. (White space at the ends of a value is stripped first; the one value
  that the routes compute begins with a letter and ends with a quote.) Characters are
  single bytes in this model, so a value with a code unit above 255, which is refused as
  well, is outside it.
\<close>

definition header_value_ok :: "string \<Rightarrow> bool" where
  "header_value_ok v = (\<forall>c \<in> set v. c \<noteq> CHR 0x00 \<and> c \<noteq> CHR 0x0A \<and> c \<noteq> CHR 0x0D)"

definition error_body :: "jsval \<Rightarrow> jsval" where
  "error_body e = JObj [(''error'', e)]"

record handled =
  calls :: "fetch_request list"
  response :: NextResponse

section \<open>The route app/api/download-simple/route.ts\<close>

text \<open>
  The argument \<open>req\<close> is the outcome of \<^verbatim>\<open>await request.json()\<close> (\<open>None\<close> when it
  rejects). Every exception inside \<^verbatim>\<open>try\<close> ends in the \<^verbatim>\<open>catch\<close> block, which
  answers 500 with \<^verbatim>\<open>{ error: 'Download failed' }\<close>: a rejected fetch, a body that
  cannot be read, a property read on \<^verbatim>\<open>null\<close>, and a backend status that
  \<^verbatim>\<open>NextResponse.json\<close> refuses.
\<close>

definition download_failed :: NextResponse where
  "download_failed = NextResponse_json (error_body (JStr ''Download failed'')) 500"

definition POST_download_simple :: "network \<Rightarrow> jsval option \<Rightarrow> handled" where
  "POST_download_simple net req =
     (case req of
        None \<Rightarrow> \<lparr>calls = [], response = download_failed\<rparr>
      | Some b \<Rightarrow>
         (case get_prop b ''url'' of
            None \<Rightarrow> \<lparr>calls = [], response = download_failed\<rparr>
          | Some url \<Rightarrow>
              if \<not> truthy url then
                \<lparr>calls = [],
                 response = NextResponse_json (error_body (JStr ''URL is required'')) 400\<rparr>
              else
                (let call = post_json ''http://localhost:8000/download-simple''
                              (JObj [(''url'', url)])
                 in case net call of
                      Rejected \<Rightarrow> \<lparr>calls = [call], response = download_failed\<rparr>
                    | Resolved r \<Rightarrow>
                        if \<not> resp_ok r then
                          (case resp_json r of
                             None \<Rightarrow> \<lparr>calls = [call], response = download_failed\<rparr>
                           | Some errorData \<Rightarrow>
                              (case get_prop errorData ''detail'' of
                                 None \<Rightarrow> \<lparr>calls = [call], response = download_failed\<rparr>
                               | Some detail \<Rightarrow>
                                   if response_init_throws (resp_status r) then
                                     \<lparr>calls = [call], response = download_failed\<rparr>
                                   else
                                     \<lparr>calls = [call],
                                      response = NextResponse_json
                                        (error_body (js_or detail (JStr ''Download failed'')))
                                        (resp_status r)\<rparr>))
                        else
                          (case resp_json r of
                             None \<Rightarrow> \<lparr>calls = [call], response = download_failed\<rparr>
                           | Some data \<Rightarrow>
                               \<lparr>calls = [call], response = NextResponse_json data 200\<rparr>))))"

section \<open>The routes of app/api/video-info/route.ts\<close>

subsection \<open>The video-info handler\<close>

text \<open>
  A backend response that is not OK throws inside \<^verbatim>\<open>try\<close>, so it ends in the same
  \<^verbatim>\<open>catch\<close> block as a rejected fetch or an unreadable body.
\<close>

definition video_info_failed :: NextResponse where
  "video_info_failed =
     NextResponse_json (error_body (JStr ''Failed to fetch video information'')) 500"

definition POST_video_info :: "network \<Rightarrow> jsval option \<Rightarrow> handled" where
  "POST_video_info net req =
     (case req of
        None \<Rightarrow> \<lparr>calls = [], response = video_info_failed\<rparr>
      | Some b \<Rightarrow>
         (case get_prop b ''url'' of
            None \<Rightarrow> \<lparr>calls = [], response = video_info_failed\<rparr>
          | Some url \<Rightarrow>
              if \<not> truthy url then
                \<lparr>calls = [],
                 response = NextResponse_json (error_body (JStr ''URL is required'')) 400\<rparr>
              else
                (let call = post_json ''http://localhost:8000/video-info''
                              (JObj [(''url'', url)])
                 in case net call of
                      Rejected \<Rightarrow> \<lparr>calls = [call], response = video_info_failed\<rparr>
                    | Resolved r \<Rightarrow>
                        if \<not> resp_ok r then
                          \<lparr>calls = [call], response = video_info_failed\<rparr>
                        else
                          (case resp_json r of
                             None \<Rightarrow> \<lparr>calls = [call], response = video_info_failed\<rparr>
                           | Some data \<Rightarrow>
                               \<lparr>calls = [call], response = NextResponse_json data 200\<rparr>))))"

subsection \<open>The download handler\<close>

text \<open>
  \<^verbatim>\<open>s.split('-')\<close>: the pieces of \<open>s\<close> between the separators; a string without
  the separator is one piece, and the empty string is one empty piece.
\<close>

fun split_on :: "char \<Rightarrow> string \<Rightarrow> string list" where
  "split_on c [] = [[]]"
| "split_on c (x # xs) =
     (if x = c then [] # split_on c xs
      else (case split_on c xs of [] \<Rightarrow> [[x]] | h # t \<Rightarrow> (x # h) # t))"

text \<open>
  \<^verbatim>\<open>format_id.split('-')[1] || 'mp4'\<close>: the second piece when there is one and it is
  not empty, \<^verbatim>\<open>mp4\<close> otherwise.
\<close>

definition filename_extension :: "string \<Rightarrow> string" where
  "filename_extension format_id =
     (case split_on CHR ''-'' format_id of
        a # b # rest \<Rightarrow> if b = [] then ''mp4'' else b
      | _ \<Rightarrow> ''mp4'')"

definition content_disposition :: "string \<Rightarrow> string" where
  \<open>content_disposition e = ''attachment; filename="video.'' @ e @ ''"''\<close>

text \<open>
  The handler reads the blob before it builds the headers; \<^verbatim>\<open>format_id.split\<close> is a
  TypeError when the truthy \<^verbatim>\<open>format_id\<close> is not a string, and so is a
  \<^verbatim>\<open>Content-Disposition\<close> value that the constructor of the response refuses. All
  end in \<^verbatim>\<open>catch\<close>.
\<close>

definition POST_download :: "network \<Rightarrow> jsval option \<Rightarrow> handled" where
  "POST_download net req =
     (case req of
        None \<Rightarrow> \<lparr>calls = [], response = download_failed\<rparr>
      | Some b \<Rightarrow>
         (case (get_prop b ''url'', get_prop b ''format_id'') of
            (Some url, Some format_id) \<Rightarrow>
              if \<not> truthy url \<or> \<not> truthy format_id then
                \<lparr>calls = [],
                 response = NextResponse_json
                   (error_body (JStr ''URL and format_id are required'')) 400\<rparr>
              else
                (let call = post_json ''http://localhost:8000/download''
                              (JObj [(''url'', url), (''format_id'', format_id)])
                 in case net call of
                      Rejected \<Rightarrow> \<lparr>calls = [call], response = download_failed\<rparr>
                    | Resolved r \<Rightarrow>
                        if \<not> resp_ok r then
                          \<lparr>calls = [call], response = download_failed\<rparr>
                        else
                          (case resp_blob r of
                             None \<Rightarrow> \<lparr>calls = [call], response = download_failed\<rparr>
                           | Some blob \<Rightarrow>
                              (case format_id of
                                 JStr s \<Rightarrow>
                                   if header_value_ok (content_disposition (filename_extension s))
                                   then
                                     \<lparr>calls = [call],
                                      response =
                                        \<lparr>status_code = 200,
                                         headers =
                                           [(''Content-Type'', ''application/octet-stream''),
                                            (''Content-Disposition'',
                                             content_disposition (filename_extension s))],
                                         body = BlobBody blob\<rparr>\<rparr>
                                   else \<lparr>calls = [call], response = download_failed\<rparr>
                               | _ \<Rightarrow> \<lparr>calls = [call], response = download_failed\<rparr>)))
          | _ \<Rightarrow> \<lparr>calls = [], response = download_failed\<rparr>))"

section \<open>The client page app/page.tsx\<close>

subsection \<open>State\<close>

text \<open>
  The interfaces \<^verbatim>\<open>VideoInfo\<close> and \<^verbatim>\<open>DownloadProgress\<close>. The fields of a progress
  object are filled from parsed JSON without any check, so they are JavaScript values;
  a field that an object literal of the source leaves out is \<^verbatim>\<open>undefined\<close>.
\<close>

record Format =
  format_id :: string
  ext :: string
  resolution :: string
  filesize :: "jsnum option"
  vcodec :: string
  acodec :: string

record VideoInfo =
  title :: string
  duration :: string
  thumbnail :: string
  formats :: "Format list"

record DownloadProgress =
  status :: jsval
  percentage :: jsval
  filename :: jsval
  error :: jsval
  download_id :: jsval
  message :: jsval
  speed :: jsval
  eta :: jsval

definition no_fields :: DownloadProgress where
  "no_fields =
     \<lparr>status = JUndefined, percentage = JUndefined, filename = JUndefined,
      error = JUndefined, download_id = JUndefined, message = JUndefined,
      speed = JUndefined, eta = JUndefined\<rparr>"

text \<open>The component state that the download handlers close over.\<close>

record page =
  url :: string
  videoInfo :: "VideoInfo option"
  selectedFormat :: string

text \<open>
  What one run of a handler does: the requests it sends and the values it passes to
  \<^verbatim>\<open>setDownloadProgress\<close>, in order (\<open>None\<close> is \<^verbatim>\<open>null\<close>).
\<close>

record action =
  requests :: "fetch_request list"
  updates :: "DownloadProgress option list"

definition final_progress :: "DownloadProgress option \<Rightarrow> action \<Rightarrow> DownloadProgress option" where
  "final_progress before a = (if updates a = [] then before else last (updates a))"

text \<open>A property read of a value that is known not to be null or undefined.\<close>

definition field_of :: "jsval \<Rightarrow> string \<Rightarrow> jsval" where
  "field_of v k = (case get_prop v k of None \<Rightarrow> JUndefined | Some x \<Rightarrow> x)"

subsection \<open>downloadVideo\<close>

definition downloading_from_zero :: "DownloadProgress option" where
  "downloading_from_zero =
     Some (no_fields\<lparr>status := JStr ''downloading'', percentage := JNum (Finite 0)\<rparr>)"

definition try_again :: "DownloadProgress option" where
  "try_again =
     Some (no_fields\<lparr>status := JStr ''error'',
                     error := JStr ''Download failed. Please try again.''\<rparr>)"

text \<open>
  The part of \<^verbatim>\<open>downloadVideo\<close> that runs once \<^verbatim>\<open>await fetch(...)\<close> has settled
  (lines 145 to 178): the updates it makes. A rejected fetch, an unreadable body and a
  body that is \<^verbatim>\<open>null\<close> all end in the \<^verbatim>\<open>catch\<close> block.
\<close>

definition on_download_response :: "fetch_result \<Rightarrow> DownloadProgress option list" where
  "on_download_response res =
     (case res of
        Rejected \<Rightarrow> [try_again]
      | Resolved r \<Rightarrow>
         (case resp_json r of
            None \<Rightarrow> [try_again]
          | Some data \<Rightarrow>
             (case get_prop data ''message'' of
                None \<Rightarrow> [try_again]
              | Some m \<Rightarrow>
                  if m = JStr ''Download task already exists'' then
                    [Some (no_fields\<lparr>status := JStr ''exists'',
                                      message := JStr ''Download task already exists'',
                                      download_id := field_of data ''download_id'',
                                      percentage := field_of data ''progress''\<rparr>)]
                  else if field_of data ''status'' = JStr ''failed'' then
                    [Some (no_fields\<lparr>status := JStr ''error'',
                                      error := js_or (field_of data ''error'') (JStr ''Download failed''),
                                      download_id := field_of data ''download_id''\<rparr>)]
                  else if truthy (field_of data ''download_id'') then
                    [Some (no_fields\<lparr>status := JStr ''downloading'',
                                      download_id := field_of data ''download_id'',
                                      percentage := JNum (Finite 0)\<rparr>)]
                  else [])))"

definition downloadVideo :: "network \<Rightarrow> page \<Rightarrow> action" where
  "downloadVideo net pg =
     (if selectedFormat pg = [] \<or> videoInfo pg = None then \<lparr>requests = [], updates = []\<rparr>
      else
        (let call = post_json ''/api/download''
                      (JObj [(''url'', JStr (url pg)), (''format_id'', JStr (selectedFormat pg))])
         in \<lparr>requests = [call],
             updates = downloading_from_zero # on_download_response (net call)\<rparr>))"

subsection \<open>downloadFallback, downloadAlternative, downloadSimple\<close>

text \<open>
  The three functions have the same body and differ in the endpoint only. After the
  response they set a state only when it carries a truthy \<^verbatim>\<open>download_id\<close>.
\<close>

definition on_url_download_response :: "fetch_result \<Rightarrow> DownloadProgress option list" where
  "on_url_download_response res =
     (case res of
        Rejected \<Rightarrow> [try_again]
      | Resolved r \<Rightarrow>
         (case resp_json r of
            None \<Rightarrow> [try_again]
          | Some data \<Rightarrow>
             (case get_prop data ''download_id'' of
                None \<Rightarrow> [try_again]
              | Some i \<Rightarrow>
                  if truthy i then
                    [Some (no_fields\<lparr>status := JStr ''downloading'', download_id := i,
                                      percentage := JNum (Finite 0)\<rparr>)]
                  else [])))"

definition download_by_url :: "string \<Rightarrow> network \<Rightarrow> page \<Rightarrow> action" where
  "download_by_url endpoint net pg =
     (if videoInfo pg = None then \<lparr>requests = [], updates = []\<rparr>
      else
        (let call = post_json endpoint (JObj [(''url'', JStr (url pg))])
         in \<lparr>requests = [call],
             updates = downloading_from_zero # on_url_download_response (net call)\<rparr>))"

definition downloadFallback :: "network \<Rightarrow> page \<Rightarrow> action" where
  "downloadFallback = download_by_url ''/api/download-fallback''"

definition downloadAlternative :: "network \<Rightarrow> page \<Rightarrow> action" where
  "downloadAlternative = download_by_url ''/api/download-alternative''"

definition downloadSimple :: "network \<Rightarrow> page \<Rightarrow> action" where
  "downloadSimple = download_by_url ''/api/download-simple''"

subsection \<open>cancelDownload\<close>

definition cancelDownload :: "network \<Rightarrow> string \<Rightarrow> action" where
  "cancelDownload net downloadId =
     (let call = \<lparr>req_url = ''http://localhost:8000/downloads/'' @ downloadId,
                  req_method = ''DELETE'', req_headers = [], req_body = None\<rparr>
      in \<lparr>requests = [call],
          updates = (case net call of
                       Rejected \<Rightarrow> []
                     | Resolved r \<Rightarrow> if resp_ok r then [None] else [])\<rparr>)"

subsection \<open>The progress stream\<close>

text \<open>
  The effect opens an \<^verbatim>\<open>EventSource\<close> when the progress state has a truthy
  \<^verbatim>\<open>download_id\<close> and the status \<^verbatim>\<open>downloading\<close>.
\<close>

definition opens_stream :: "DownloadProgress option \<Rightarrow> bool" where
  "opens_stream dp =
     (case dp of
        None \<Rightarrow> False
      | Some p \<Rightarrow> truthy (download_id p) \<and> status p = JStr ''downloading'')"

text \<open>
  What the subscriber holds: the progress state and whether its \<^verbatim>\<open>EventSource\<close> is
  still open.
\<close>

record observer =
  downloadProgress :: "DownloadProgress option"
  eventSource_open :: bool

text \<open>
  \<^verbatim>\<open>eventSource.onmessage\<close>. \<open>subscribed\<close> is the \<^verbatim>\<open>download_id\<close> the effect closed
  over, \<open>parsed\<close> is the outcome of \<^verbatim>\<open>JSON.parse(event.data)\<close> (\<open>None\<close> when it
  throws). An exception is caught and logged, which changes nothing.
\<close>

definition onmessage :: "jsval \<Rightarrow> jsval option \<Rightarrow> observer \<Rightarrow> observer" where
  "onmessage subscribed parsed ob =
     (case parsed of
        None \<Rightarrow> ob
      | Some progressData \<Rightarrow>
         (case get_prop progressData ''status'' of
            None \<Rightarrow> ob
          | Some st \<Rightarrow>
              if st = JStr ''keepalive'' then ob
              else
                (let shown = Some
                       \<lparr>status = (if st = JStr ''failed'' then JStr ''error'' else st),
                        percentage = field_of progressData ''progress'',
                        filename = field_of progressData ''filename'',
                        error = field_of progressData ''error'',
                        download_id = js_or (field_of progressData ''download_id'') subscribed,
                        message = JUndefined,
                        speed = field_of progressData ''speed'',
                        eta = field_of progressData ''eta''\<rparr>
                 in if st = JStr ''completed'' then
                      \<lparr>downloadProgress = shown, eventSource_open = False\<rparr>
                    else if st = JStr ''failed'' then
                      \<lparr>downloadProgress = shown, eventSource_open = False\<rparr>
                    else if st = JStr ''cancelled'' then
                      \<lparr>downloadProgress = None, eventSource_open = False\<rparr>
                    else ob\<lparr>downloadProgress := shown\<rparr>)))"

subsection \<open>The buttons\<close>

text \<open>
  The download buttons are rendered inside \<^verbatim>\<open>{videoInfo && (...)}\<close>; each has its own
  \<^verbatim>\<open>onClick\<close> and \<^verbatim>\<open>disabled\<close>. The retry button is rendered in the error state
  when it has a \<^verbatim>\<open>download_id\<close>, and calls \<^verbatim>\<open>downloadVideo\<close> again.
\<close>

datatype button =
  DownloadSelected | DownloadAlternative | DownloadFallback | DownloadSimple | Retry

definition is_downloading :: "DownloadProgress option \<Rightarrow> bool" where
  "is_downloading dp = (case dp of None \<Rightarrow> False | Some p \<Rightarrow> status p = JStr ''downloading'')"

fun disabled :: "button \<Rightarrow> page \<Rightarrow> DownloadProgress option \<Rightarrow> bool" where
  "disabled DownloadSelected pg dp = (selectedFormat pg = [] \<or> is_downloading dp)"
| "disabled Retry pg dp = False"
| "disabled b pg dp = (videoInfo pg = None \<or> is_downloading dp)"

fun rendered :: "button \<Rightarrow> page \<Rightarrow> DownloadProgress option \<Rightarrow> bool" where
  "rendered Retry pg dp =
     (videoInfo pg \<noteq> None \<and>
      (case dp of
         None \<Rightarrow> False
       | Some p \<Rightarrow> status p = JStr ''error'' \<and> truthy (download_id p)))"
| "rendered b pg dp = (videoInfo pg \<noteq> None)"

fun onClick :: "button \<Rightarrow> network \<Rightarrow> page \<Rightarrow> action" where
  "onClick DownloadSelected = downloadVideo"
| "onClick DownloadAlternative = downloadAlternative"
| "onClick DownloadFallback = downloadFallback"
| "onClick DownloadSimple = downloadSimple"
| "onClick Retry = downloadVideo"

definition click :: "button \<Rightarrow> network \<Rightarrow> page \<Rightarrow> DownloadProgress option \<Rightarrow> action" where
  "click b net pg dp =
     (if rendered b pg dp \<and> \<not> disabled b pg dp then onClick b net pg
      else \<lparr>requests = [], updates = []\<rparr>)"

subsection \<open>Endpoints and quality tiers of the buttons\<close>

text \<open>
  The endpoint and the request body of each button's handler, and the quality its label
  names: "Download Selected Quality", "Download Alternative (480p)", "Download Fallback
  (720p)" and "Download Simple (Lowest Quality)".
\<close>

datatype rung = UserSelected | Q480p | Q720p | LowestAvailable

fun endpoint :: "button \<Rightarrow> string" where
  "endpoint DownloadSelected = ''/api/download''"
| "endpoint DownloadAlternative = ''/api/download-alternative''"
| "endpoint DownloadFallback = ''/api/download-fallback''"
| "endpoint DownloadSimple = ''/api/download-simple''"
| "endpoint Retry = ''/api/download''"

fun payload :: "button \<Rightarrow> page \<Rightarrow> jsval" where
  "payload DownloadSelected pg =
     JObj [(''url'', JStr (url pg)), (''format_id'', JStr (selectedFormat pg))]"
| "payload Retry pg =
     JObj [(''url'', JStr (url pg)), (''format_id'', JStr (selectedFormat pg))]"
| "payload b pg = JObj [(''url'', JStr (url pg))]"

fun rung_of_button :: "button \<Rightarrow> rung" where
  "rung_of_button DownloadSelected = UserSelected"
| "rung_of_button Retry = UserSelected"
| "rung_of_button DownloadAlternative = Q480p"
| "rung_of_button DownloadFallback = Q720p"
| "rung_of_button DownloadSimple = LowestAvailable"

definition rung_of_endpoint :: "string \<Rightarrow> rung option" where
  "rung_of_endpoint e =
     (if e = ''/api/download'' then Some UserSelected
      else if e = ''/api/download-alternative'' then Some Q480p
      else if e = ''/api/download-fallback'' then Some Q720p
      else if e = ''/api/download-simple'' then Some LowestAvailable
      else None)"

text \<open>The tiers that the requests of one handler run ask for, in order.\<close>

definition attempted :: "action \<Rightarrow> rung list" where
  "attempted a = List.map_filter (\<lambda>c. rung_of_endpoint (req_url c)) (requests a)"

section \<open>Statements of the specification about the client and the routes\<close>

text \<open>
  The fallback ladder as the specification states it, and what it says follows a failed
  attempt: the next rung is tried without the user asking. These two definitions follow
  the specification's words, to be compared with the handlers above.
\<close>

definition fallback_ladder :: "rung list" where
  "fallback_ladder = [UserSelected, Q480p, Q720p, LowestAvailable]"

fun next_rung :: "rung \<Rightarrow> rung option" where
  "next_rung UserSelected = Some Q480p"
| "next_rung Q480p = Some Q720p"
| "next_rung Q720p = Some LowestAvailable"
| "next_rung LowestAvailable = None"

definition retries_with_next_rung :: "rung \<Rightarrow> action \<Rightarrow> bool" where
  "retries_with_next_rung r a =
     (case next_rung r of None \<Rightarrow> True | Some n \<Rightarrow> n \<in> set (attempted a))"


text \<open>
  "Preserves the backend's status code": the status of the route's response is the
  status of the backend's response. This definition follows the words of the statement
  about the download-simple route.
\<close>

definition preserves_backend_status :: "fetch_response \<Rightarrow> NextResponse \<Rightarrow> bool" where
  "preserves_backend_status r res = (status_code res = resp_status r)"

section \<open>The orchestrator, as the specification describes it\<close>

text \<open>
  The task registry, the worker and the progress broker run in the Python backend, of
  which the repository's TypeScript sources hold the callers only: the client page and
  the routes above. The definitions of this section are written from the specification.
\<close>

subsection \<open>Task registry\<close>

text \<open>
  Modelled from the spec: the states of a task (section 3), which the missing backend
  keeps; \<^verbatim>\<open>Completed\<close>, \<^verbatim>\<open>Failed\<close> and \<^verbatim>\<open>Cancelled\<close> are the terminal ones
  (glossary).
\<close>

datatype task_state = Queued | Running | Completed | Failed | Cancelled

fun terminal :: "task_state \<Rightarrow> bool" where
  "terminal Completed = True"
| "terminal Failed = True"
| "terminal Cancelled = True"
| "terminal s = False"

text \<open>
  Modelled from the spec: the Task of the data model (section 3), which the missing
  registry of the backend holds. The identifier is the key of the registry;
  \<open>cancel_signalled\<close> is the worker's cancellation token.
\<close>

record task =
  sourceURL :: string
  qualitySelector :: string
  state :: task_state
  progressPercent :: real
  attempt :: nat
  cancel_signalled :: bool

type_synonym registry = "string \<Rightarrow> task option"

text \<open>
  Modelled from the spec: the answers of the missing registry operation
  \<^verbatim>\<open>Cancel(id) -> ok | NotFound | AlreadyTerminal\<close> (section 4.2).
\<close>

datatype cancel_result = Ok | NotFound | AlreadyTerminal

text \<open>
  Modelled from the spec: the registry operation \<^verbatim>\<open>Cancel\<close> (section 4.2), which the
  backend's cancellation endpoint calls and which is missing from the sources: it "marks
  state Cancelled and signals the Worker's cancellation token"; the request "returns a
  not-found indication if the id is unknown, and a conflict indication if the task is
  already terminal" (section 6).
\<close>

definition Cancel :: "registry \<Rightarrow> string \<Rightarrow> cancel_result \<times> registry" where
  "Cancel reg i =
     (case reg i of
        None \<Rightarrow> (NotFound, reg)
      | Some t \<Rightarrow>
          if terminal (state t) then (AlreadyTerminal, reg)
          else (Ok, reg(i \<mapsto> t\<lparr>state := Cancelled, cancel_signalled := True\<rparr>)))"

text \<open>The state of the task that the registry holds under an identifier, if any.\<close>

definition state_of :: "registry \<Rightarrow> string \<Rightarrow> task_state option" where
  "state_of reg i = map_option state (reg i)"

subsection \<open>Worker and progress broker\<close>














section \<open>Example inputs\<close>

definition offline :: network where
  "offline = (\<lambda>c. Rejected)"

definition answering :: "fetch_response \<Rightarrow> network" where
  "answering r = (\<lambda>c. Resolved r)"

definition page0 :: page where
  "page0 =
     \<lparr>url = ''https://youtu.be/abc'',
      videoInfo = Some
        \<lparr>title = ''A video'', duration = ''1:00'', thumbnail = ''https://i.ytimg.com/abc.jpg'',
         formats = [\<lparr>format_id = ''18'', ext = ''mp4'', resolution = ''640x360'',
                     filesize = None, vcodec = ''avc1'', acodec = ''mp4a''\<rparr>]\<rparr>,
      selectedFormat = ''18''\<rparr>"

definition already_exists :: jsval where
  "already_exists =
     JObj [(''message'', JStr ''Download task already exists''),
           (''download_id'', JStr ''abc123''), (''progress'', JNum (Finite 42))]"

definition duplicate_reply :: fetch_response where
  "duplicate_reply =
     \<lparr>resp_status = 200, resp_json = Some already_exists, resp_blob = None\<rparr>"

definition format_failed :: fetch_response where
  "format_failed =
     \<lparr>resp_status = 200,
      resp_json = Some (JObj [(''status'', JStr ''failed''), (''download_id'', JStr ''abc123''),
                               (''error'', JStr ''Requested format is not available'')]),
      resp_blob = None\<rparr>"

definition observer0 :: observer where
  "observer0 =
     \<lparr>downloadProgress = Some (no_fields\<lparr>status := JStr ''downloading'',
                                           download_id := JStr ''abc123'',
                                           percentage := JNum (Finite 40)\<rparr>),
      eventSource_open = True\<rparr>"

definition event :: "string \<Rightarrow> jsval" where
  "event st = JObj [(''status'', JStr st), (''progress'', JNum (Finite 55)),
                    (''download_id'', JStr ''abc123'')]"

definition with_url :: jsval where
  "with_url = JObj [(''url'', JStr ''https://youtu.be/abc'')]"

definition backend_404 :: fetch_response where
  "backend_404 =
     \<lparr>resp_status = 404,
      resp_json = Some (JObj [(''detail'', JStr ''Video unavailable'')]), resp_blob = None\<rparr>"

text \<open>A proxy's 502 with an HTML page as body, and a JSON error with the status 600.\<close>

definition bad_gateway :: fetch_response where
  "bad_gateway = \<lparr>resp_status = 502, resp_json = None, resp_blob = None\<rparr>"

definition status_600 :: fetch_response where
  "status_600 =
     \<lparr>resp_status = 600,
      resp_json = Some (JObj [(''detail'', JStr ''Video unavailable'')]), resp_blob = None\<rparr>"




definition a_task :: "task_state \<Rightarrow> task" where
  "a_task s = \<lparr>sourceURL = ''https://youtu.be/abc'', qualitySelector = ''best'', state = s,
              progressPercent = 40, attempt = 0, cancel_signalled = False\<rparr>"

definition registry0 :: registry where
  "registry0 = [''t1'' \<mapsto> a_task Running, ''t2'' \<mapsto> a_task Completed]"




section \<open>Properties of formatFileSize\<close>

lemma length_sizes: "length sizes = 4"
  by (simp add: sizes_def)

lemma sizes_at_cases:
  "sizes_at i = ''Bytes'' \<or> sizes_at i = ''KB'' \<or> sizes_at i = ''MB'' \<or> sizes_at i = ''GB''
     \<or> sizes_at i = ''undefined''"
proof (cases i)
  case None
  then show ?thesis by (simp add: sizes_at_def)
next
  case (Some k)
  show ?thesis
  proof (cases "0 \<le> k \<and> nat k < 4")
    case False
    with Some have "sizes_at i = ''undefined''"
      by (auto simp: sizes_at_def length_sizes)
    then show ?thesis by simp
  next
    case True
    then have "nat k = 0 \<or> nat k = 1 \<or> nat k = 2 \<or> nat k = 3" by arith
    moreover from Some True have "sizes_at i = sizes ! nat k"
      by (simp add: sizes_at_def length_sizes)
    ultimately show ?thesis by (auto simp: sizes_def)
  qed
qed

lemma unit_suffix_not_0_Byte: "s @ '' '' @ sizes_at i \<noteq> ''0 Byte''"
proof
  assume eq: "s @ '' '' @ sizes_at i = ''0 Byte''"
  have "last (s @ '' '' @ sizes_at i) \<noteq> CHR ''e''"
    using sizes_at_cases [of i] by auto
  with eq show False by simp
qed

text \<open>
  C9. \<^verbatim>\<open>formatFileSize\<close> never returns \<^verbatim>\<open>'0 Byte'\<close>: the guard \<^verbatim>\<open>!bytes\<close> comes
  before the test \<^verbatim>\<open>bytes === 0\<close>, so both \<^verbatim>\<open>formatFileSize(0)\<close> and
  \<^verbatim>\<open>formatFileSize(undefined)\<close> are \<^verbatim>\<open>'Unknown size'\<close>, and the last branch ends
  in a unit name, never in \<^verbatim>\<open>Byte\<close>. This holds whatever the floating-point
  computations return.
\<close>

theorem formatFileSize_never_0_Byte:
  "formatFileSize logIndex rounded bytes \<noteq> ''0 Byte''
   \<and> formatFileSize logIndex rounded (Some (Finite 0)) = ''Unknown size''
   \<and> formatFileSize logIndex rounded None = ''Unknown size''"
proof -
  have "formatFileSize logIndex rounded bytes \<noteq> ''0 Byte''"
  proof (cases bytes)
    case None
    then show ?thesis by (simp add: formatFileSize_def)
  next
    case (Some b)
    show ?thesis
    proof (cases "truthy_num b")
      case False
      with Some show ?thesis by (simp add: formatFileSize_def)
    next
      case True
      then have "b \<noteq> Finite 0" by auto
      with Some True show ?thesis
        using unit_suffix_not_0_Byte [of "rounded b (logIndex b)" "logIndex b"]
        by (simp add: formatFileSize_def Let_def)
    qed
  qed
  then show ?thesis by (simp add: formatFileSize_def)
qed

section \<open>Properties of downloadVideo\<close>

text \<open>
  C1. When the response to the submission carries the duplicate marker (its
  \<^verbatim>\<open>message\<close> is \<^verbatim>\<open>'Download task already exists'\<close>), the only update that
  \<^verbatim>\<open>downloadVideo\<close> makes after the response is the \<^verbatim>\<open>exists\<close> state with the
  \<^verbatim>\<open>download_id\<close> and the \<^verbatim>\<open>progress\<close> of the response, and that is the state it
  ends in; the branch that sets \<^verbatim>\<open>downloading\<close> with the identifier is not reached.
  One request is sent, and no state that the call sets (the \<^verbatim>\<open>downloading\<close> state
  without identifier set before the request included) satisfies the condition under
  which the effect opens a progress stream.
\<close>

theorem duplicate_marker_shows_exists:
  assumes sel: "selectedFormat pg \<noteq> []" and info: "videoInfo pg \<noteq> None"
    and answer: "net (post_json ''/api/download''
                   (JObj [(''url'', JStr (url pg)), (''format_id'', JStr (selectedFormat pg))]))
                 = Resolved r"
    and json: "resp_json r = Some data"
    and marker: "get_prop data ''message'' = Some (JStr ''Download task already exists'')"
  shows "on_download_response (Resolved r) =
           [Some (no_fields\<lparr>status := JStr ''exists'',
                             message := JStr ''Download task already exists'',
                             download_id := field_of data ''download_id'',
                             percentage := field_of data ''progress''\<rparr>)]
         \<and> final_progress before (downloadVideo net pg) =
           Some (no_fields\<lparr>status := JStr ''exists'',
                            message := JStr ''Download task already exists'',
                            download_id := field_of data ''download_id'',
                            percentage := field_of data ''progress''\<rparr>)
         \<and> length (requests (downloadVideo net pg)) = 1
         \<and> (\<forall>u \<in> set (updates (downloadVideo net pg)). \<not> opens_stream u)"
proof -
  let ?shown = "Some (no_fields\<lparr>status := JStr ''exists'',
                             message := JStr ''Download task already exists'',
                             download_id := field_of data ''download_id'',
                             percentage := field_of data ''progress''\<rparr>)"
  have cont: "on_download_response (Resolved r) = [?shown]"
    using json marker by (simp add: on_download_response_def)
  have ups: "updates (downloadVideo net pg) = [downloading_from_zero, ?shown]"
    using sel info answer cont by (simp add: downloadVideo_def Let_def)
  have reqs: "length (requests (downloadVideo net pg)) = 1"
    using sel info by (simp add: downloadVideo_def Let_def)
  have a: "\<not> opens_stream downloading_from_zero"
    by (simp add: opens_stream_def downloading_from_zero_def no_fields_def)
  have b: "\<not> opens_stream ?shown"
    by (simp add: opens_stream_def)
  from cont ups reqs a b show ?thesis
    by (simp add: final_progress_def)
qed

text \<open>The theorem at a duplicate reply for the task \<^verbatim>\<open>abc123\<close> at 42 percent.\<close>

theorem duplicate_marker_shows_exists_witness:
  "final_progress None (downloadVideo (answering duplicate_reply) page0) =
     Some (no_fields\<lparr>status := JStr ''exists'',
                      message := JStr ''Download task already exists'',
                      download_id := JStr ''abc123'',
                      percentage := JNum (Finite 42)\<rparr>)
   \<and> list_all (\<lambda>u. \<not> opens_stream u) (updates (downloadVideo (answering duplicate_reply) page0))"
  using duplicate_marker_shows_exists
    [of page0 "answering duplicate_reply" duplicate_reply already_exists None]
  by (simp add: page0_def duplicate_reply_def already_exists_def answering_def field_of_def
      list_all_iff)

section \<open>Properties of the progress stream handler\<close>

text \<open>
  C3. For an event received on the progress stream: when its status is
  \<^verbatim>\<open>keepalive\<close> the handler returns at once, so the progress state is unchanged and the
  stream stays as it was; when its status is \<^verbatim>\<open>completed\<close>, \<^verbatim>\<open>failed\<close> or
  \<^verbatim>\<open>cancelled\<close> the handler closes the \<^verbatim>\<open>EventSource\<close>.
\<close>

theorem onmessage_keepalive_and_terminal:
  "(get_prop ev ''status'' = Some (JStr ''keepalive'') \<longrightarrow> onmessage sub (Some ev) ob = ob)
   \<and> (get_prop ev ''status'' = Some (JStr s)
        \<and> (s = ''completed'' \<or> s = ''failed'' \<or> s = ''cancelled'')
      \<longrightarrow> \<not> eventSource_open (onmessage sub (Some ev) ob))"
proof (intro conjI impI)
  assume "get_prop ev ''status'' = Some (JStr ''keepalive'')"
  then show "onmessage sub (Some ev) ob = ob"
    by (simp add: onmessage_def)
next
  assume h: "get_prop ev ''status'' = Some (JStr s)
        \<and> (s = ''completed'' \<or> s = ''failed'' \<or> s = ''cancelled'')"
  then consider "s = ''completed''" | "s = ''failed''" | "s = ''cancelled''" by blast
  then show "\<not> eventSource_open (onmessage sub (Some ev) ob)"
  proof cases
    case 1
    with h show ?thesis by (simp add: onmessage_def Let_def)
  next
    case 2
    with h show ?thesis by (simp add: onmessage_def Let_def)
  next
    case 3
    with h show ?thesis by (simp add: onmessage_def Let_def)
  qed
qed

text \<open>The theorem at one event of each kind, received by an open subscriber.\<close>

theorem onmessage_keepalive_and_terminal_witness:
  "onmessage (JStr ''abc123'') (Some (event ''keepalive'')) observer0 = observer0
   \<and> \<not> eventSource_open (onmessage (JStr ''abc123'') (Some (event ''completed'')) observer0)
   \<and> \<not> eventSource_open (onmessage (JStr ''abc123'') (Some (event ''failed'')) observer0)
   \<and> \<not> eventSource_open (onmessage (JStr ''abc123'') (Some (event ''cancelled'')) observer0)
   \<and> eventSource_open observer0"
  using onmessage_keepalive_and_terminal
      [of "event ''keepalive''" "JStr ''abc123''" observer0 "''keepalive''"]
    onmessage_keepalive_and_terminal
      [of "event ''completed''" "JStr ''abc123''" observer0 "''completed''"]
    onmessage_keepalive_and_terminal
      [of "event ''failed''" "JStr ''abc123''" observer0 "''failed''"]
    onmessage_keepalive_and_terminal
      [of "event ''cancelled''" "JStr ''abc123''" observer0 "''cancelled''"]
  by (simp add: event_def observer0_def)

text \<open>
  An event with any other status is not ignored: the handler stores its fields as they
  come, the percentage included, and leaves the stream as it was.
\<close>

lemma onmessage_stores_progress_verbatim:
  assumes "get_prop ev ''status'' = Some st"
    and "st \<noteq> JStr ''keepalive''" and "st \<noteq> JStr ''completed''"
    and "st \<noteq> JStr ''failed''" and "st \<noteq> JStr ''cancelled''"
  shows "map_option percentage (downloadProgress (onmessage sub (Some ev) ob)) =
           Some (field_of ev ''progress'')
         \<and> eventSource_open (onmessage sub (Some ev) ob) = eventSource_open ob"
  using assms by (simp add: onmessage_def Let_def)

section \<open>Properties of the routes\<close>

text \<open>
  C5. A request whose body has no \<^verbatim>\<open>url\<close> (or a falsy one, as the empty string)
  is answered by the download-simple route with status 400 and the body
  \<^verbatim>\<open>{ error: 'URL is required' }\<close>, and a request whose body lacks \<^verbatim>\<open>url\<close> or
  \<^verbatim>\<open>format_id\<close> is answered by the download route with status 400 and the body
  \<^verbatim>\<open>{ error: 'URL and format_id are required' }\<close>. Neither route calls the backend,
  so no task is created.
\<close>

theorem missing_field_is_400_without_backend_call:
  "(get_prop b ''url'' = Some u \<and> \<not> truthy u \<longrightarrow>
      POST_download_simple net (Some b) =
        \<lparr>calls = [], response = NextResponse_json (error_body (JStr ''URL is required'')) 400\<rparr>)
   \<and> (get_prop b ''url'' = Some u \<and> get_prop b ''format_id'' = Some f
        \<and> (\<not> truthy u \<or> \<not> truthy f) \<longrightarrow>
      POST_download net (Some b) =
        \<lparr>calls = [],
         response = NextResponse_json (error_body (JStr ''URL and format_id are required'')) 400\<rparr>)
   \<and> (map_of kvs ''url'' = None \<longrightarrow>
      POST_download_simple net (Some (JObj kvs)) =
        \<lparr>calls = [], response = NextResponse_json (error_body (JStr ''URL is required'')) 400\<rparr>)
   \<and> (map_of kvs ''url'' = None \<or> map_of kvs ''format_id'' = None \<longrightarrow>
      POST_download net (Some (JObj kvs)) =
        \<lparr>calls = [],
         response = NextResponse_json (error_body (JStr ''URL and format_id are required'')) 400\<rparr>)"
proof (intro conjI impI)
  assume "get_prop b ''url'' = Some u \<and> \<not> truthy u"
  then show "POST_download_simple net (Some b) =
        \<lparr>calls = [], response = NextResponse_json (error_body (JStr ''URL is required'')) 400\<rparr>"
    by (simp add: POST_download_simple_def)
next
  assume "get_prop b ''url'' = Some u \<and> get_prop b ''format_id'' = Some f
        \<and> (\<not> truthy u \<or> \<not> truthy f)"
  then show "POST_download net (Some b) =
        \<lparr>calls = [],
         response = NextResponse_json (error_body (JStr ''URL and format_id are required'')) 400\<rparr>"
    by (auto simp: POST_download_def)
next
  assume "map_of kvs ''url'' = None"
  then show "POST_download_simple net (Some (JObj kvs)) =
        \<lparr>calls = [], response = NextResponse_json (error_body (JStr ''URL is required'')) 400\<rparr>"
    by (simp add: POST_download_simple_def)
next
  assume "map_of kvs ''url'' = None \<or> map_of kvs ''format_id'' = None"
  then show "POST_download net (Some (JObj kvs)) =
        \<lparr>calls = [],
         response = NextResponse_json (error_body (JStr ''URL and format_id are required'')) 400\<rparr>"
    by (auto simp: POST_download_def)
qed

text \<open>
  The theorem at an empty object, at a body with a \<^verbatim>\<open>url\<close> only and at a body with a
  \<^verbatim>\<open>format_id\<close> only.
\<close>

theorem missing_field_is_400_without_backend_call_witness:
  "POST_download_simple offline (Some (JObj [])) =
        \<lparr>calls = [], response = NextResponse_json (error_body (JStr ''URL is required'')) 400\<rparr>
   \<and> POST_download offline (Some with_url) =
        \<lparr>calls = [],
         response = NextResponse_json (error_body (JStr ''URL and format_id are required'')) 400\<rparr>
   \<and> POST_download offline (Some (JObj [(''format_id'', JStr ''18'')])) =
        \<lparr>calls = [],
         response = NextResponse_json (error_body (JStr ''URL and format_id are required'')) 400\<rparr>"
  using missing_field_is_400_without_backend_call
      [of "JObj []" JUndefined offline JUndefined "[]"]
    missing_field_is_400_without_backend_call
      [of with_url "JStr ''https://youtu.be/abc''" offline JUndefined
          "[(''url'', JStr ''https://youtu.be/abc'')]"]
    missing_field_is_400_without_backend_call
      [of "JObj [(''format_id'', JStr ''18'')]" JUndefined offline "JStr ''18''"
          "[(''format_id'', JStr ''18'')]"]
  by (simp add: with_url_def)

text \<open>
  A body that cannot be parsed, or that is \<^verbatim>\<open>null\<close>, throws inside \<^verbatim>\<open>try\<close>: the
  answer is the 500 of the \<^verbatim>\<open>catch\<close> block, again without a backend call.
\<close>

lemma unreadable_body_is_500_without_backend_call:
  "POST_download_simple net None = \<lparr>calls = [], response = download_failed\<rparr>
   \<and> POST_download_simple net (Some JNull) = \<lparr>calls = [], response = download_failed\<rparr>
   \<and> POST_download net None = \<lparr>calls = [], response = download_failed\<rparr>
   \<and> POST_download net (Some JNull) = \<lparr>calls = [], response = download_failed\<rparr>"
  by (simp add: POST_download_simple_def POST_download_def)

text \<open>
  C10, as stated, fails for download-simple: a backend that answers 502 with a body
  that is not JSON is not OK, and the route answers 500 with
  \<^verbatim>\<open>{ error: 'Download failed' }\<close>, because \<^verbatim>\<open>response.json()\<close> rejects inside
  \<^verbatim>\<open>try\<close>.
\<close>

theorem bad_gateway_becomes_500:
  "\<not> resp_ok bad_gateway
   \<and> \<not> preserves_backend_status bad_gateway
         (response (POST_download_simple (answering bad_gateway) (Some with_url)))
   \<and> response (POST_download_simple (answering bad_gateway) (Some with_url)) = download_failed"
  by (simp add: resp_ok_def preserves_backend_status_def POST_download_simple_def answering_def
      bad_gateway_def with_url_def download_failed_def NextResponse_json_def)

text \<open>
  C10, amended. The video-info route answers every failure with status 500 and the body
  \<^verbatim>\<open>{ error: 'Failed to fetch video information' }\<close>: an unreadable request, a
  rejected fetch, a backend response that is not OK (whatever its status and body) and
  an unreadable backend body. The download-simple route passes the backend's status
  and, as \<^verbatim>\<open>error\<close>, the \<^verbatim>\<open>detail\<close> of its body on (\<^verbatim>\<open>'Download failed'\<close> when
  the detail is falsy) only when the response that is not OK has a JSON body other than
  \<^verbatim>\<open>null\<close> and a status with which a response with a body can be built (200 to 599
  and not 204, 205 or 304); for every other response that is not OK it answers 500 with
  \<^verbatim>\<open>{ error: 'Download failed' }\<close>.
\<close>

theorem video_info_collapses_download_simple_passes_json_errors:
  "POST_video_info net None = \<lparr>calls = [], response = video_info_failed\<rparr>
   \<and> (get_prop b ''url'' = Some u \<and> truthy u
        \<and> (net (post_json ''http://localhost:8000/video-info'' (JObj [(''url'', u)])) = Rejected
           \<or> (\<exists>r. net (post_json ''http://localhost:8000/video-info'' (JObj [(''url'', u)]))
                     = Resolved r
                 \<and> (\<not> resp_ok r \<or> resp_json r = None)))
      \<longrightarrow> response (POST_video_info net (Some b)) = video_info_failed)
   \<and> (get_prop b ''url'' = Some u \<and> truthy u
        \<and> net (post_json ''http://localhost:8000/download-simple'' (JObj [(''url'', u)]))
            = Resolved r
        \<and> \<not> resp_ok r \<and> resp_json r = Some errorData
        \<and> get_prop errorData ''detail'' = Some detail
        \<and> \<not> response_init_throws (resp_status r)
      \<longrightarrow> response (POST_download_simple net (Some b)) =
            NextResponse_json
              (error_body (if truthy detail then detail else JStr ''Download failed''))
              (resp_status r))
   \<and> (get_prop b ''url'' = Some u \<and> truthy u
        \<and> net (post_json ''http://localhost:8000/download-simple'' (JObj [(''url'', u)]))
            = Resolved r
        \<and> \<not> resp_ok r
        \<and> (resp_json r = None
            \<or> (\<exists>e. resp_json r = Some e \<and> get_prop e ''detail'' = None)
            \<or> response_init_throws (resp_status r))
      \<longrightarrow> response (POST_download_simple net (Some b)) = download_failed)"
proof (intro conjI impI)
  show "POST_video_info net None = \<lparr>calls = [], response = video_info_failed\<rparr>"
    by (simp add: POST_video_info_def)
next
  let ?call = "post_json ''http://localhost:8000/video-info'' (JObj [(''url'', u)])"
  assume h: "get_prop b ''url'' = Some u \<and> truthy u
        \<and> (net ?call = Rejected
           \<or> (\<exists>r. net ?call = Resolved r \<and> (\<not> resp_ok r \<or> resp_json r = None)))"
  then consider "net ?call = Rejected"
    | r where "net ?call = Resolved r" "\<not> resp_ok r"
    | r where "net ?call = Resolved r" "resp_ok r" "resp_json r = None"
    by blast
  then show "response (POST_video_info net (Some b)) = video_info_failed"
  proof cases
    case 1
    with h show ?thesis by (simp add: POST_video_info_def)
  next
    case 2
    with h show ?thesis by (simp add: POST_video_info_def)
  next
    case 3
    with h show ?thesis by (simp add: POST_video_info_def)
  qed
next
  assume "get_prop b ''url'' = Some u \<and> truthy u
        \<and> net (post_json ''http://localhost:8000/download-simple'' (JObj [(''url'', u)]))
            = Resolved r
        \<and> \<not> resp_ok r \<and> resp_json r = Some errorData
        \<and> get_prop errorData ''detail'' = Some detail
        \<and> \<not> response_init_throws (resp_status r)"
  then show "response (POST_download_simple net (Some b)) =
            NextResponse_json
              (error_body (if truthy detail then detail else JStr ''Download failed''))
              (resp_status r)"
    by (simp add: POST_download_simple_def js_or_def)
next
  let ?call = "post_json ''http://localhost:8000/download-simple'' (JObj [(''url'', u)])"
  assume h: "get_prop b ''url'' = Some u \<and> truthy u
        \<and> net ?call = Resolved r
        \<and> \<not> resp_ok r
        \<and> (resp_json r = None
            \<or> (\<exists>e. resp_json r = Some e \<and> get_prop e ''detail'' = None)
            \<or> response_init_throws (resp_status r))"
  then consider "resp_json r = None"
    | e where "resp_json r = Some e" "get_prop e ''detail'' = None"
    | e d where "resp_json r = Some e" "get_prop e ''detail'' = Some d"
        "response_init_throws (resp_status r)"
    by (cases "resp_json r") auto
  then show "response (POST_download_simple net (Some b)) = download_failed"
  proof cases
    case 1
    with h show ?thesis by (simp add: POST_download_simple_def)
  next
    case 2
    with h show ?thesis by (simp add: POST_download_simple_def)
  next
    case 3
    with h show ?thesis by (simp add: POST_download_simple_def)
  qed
qed

text \<open>
  The amended statement at a rejected fetch and at a backend that answers 404 with the
  detail \<^verbatim>\<open>Video unavailable\<close>: video-info answers its fixed 500 both times,
  download-simple passes the 404 and the detail on. At a 502 without a JSON body and at
  a status 600 with one, download-simple answers its own 500.
\<close>

theorem video_info_collapses_download_simple_passes_json_errors_witness:
  "response (POST_video_info offline (Some with_url)) = video_info_failed
   \<and> response (POST_video_info (answering backend_404) (Some with_url)) = video_info_failed
   \<and> response (POST_download_simple (answering backend_404) (Some with_url)) =
       NextResponse_json (error_body (JStr ''Video unavailable'')) 404
   \<and> response (POST_download_simple (answering bad_gateway) (Some with_url)) = download_failed
   \<and> response (POST_download_simple (answering status_600) (Some with_url)) = download_failed
   \<and> video_info_failed =
       \<lparr>status_code = 500, headers = [],
        body = JsonBody (JObj [(''error'', JStr ''Failed to fetch video information'')])\<rparr>"
  using video_info_collapses_download_simple_passes_json_errors
      [of offline with_url "JStr ''https://youtu.be/abc''" backend_404 JNull JNull]
    video_info_collapses_download_simple_passes_json_errors
      [of "answering backend_404" with_url "JStr ''https://youtu.be/abc''" backend_404
          "JObj [(''detail'', JStr ''Video unavailable'')]" "JStr ''Video unavailable''"]
    video_info_collapses_download_simple_passes_json_errors
      [of "answering bad_gateway" with_url "JStr ''https://youtu.be/abc''" bad_gateway
          JNull JNull]
    video_info_collapses_download_simple_passes_json_errors
      [of "answering status_600" with_url "JStr ''https://youtu.be/abc''" status_600
          JNull JNull]
  by (simp add: offline_def answering_def with_url_def backend_404_def bad_gateway_def
      status_600_def resp_ok_def response_init_throws_def video_info_failed_def
      NextResponse_json_def error_body_def)

subsection \<open>The name of the downloaded file\<close>










section \<open>Properties of the download buttons\<close>

lemma requests_downloadVideo:
  "requests (downloadVideo net pg) = [] \<or>
   requests (downloadVideo net pg) =
     [post_json ''/api/download''
        (JObj [(''url'', JStr (url pg)), (''format_id'', JStr (selectedFormat pg))])]"
  by (simp add: downloadVideo_def Let_def)

lemma requests_download_by_url:
  "requests (download_by_url e net pg) = [] \<or>
   requests (download_by_url e net pg) = [post_json e (JObj [(''url'', JStr (url pg))])]"
  by (simp add: download_by_url_def Let_def)

lemma requests_onClick:
  "requests (onClick b net pg) = [] \<or>
   requests (onClick b net pg) = [post_json (endpoint b) (payload b pg)]"
proof (cases b)
  case DownloadSelected
  then show ?thesis using requests_downloadVideo [of net pg] by simp
next
  case DownloadAlternative
  then show ?thesis
    using requests_download_by_url [of "''/api/download-alternative''" net pg]
    by (simp add: downloadAlternative_def)
next
  case DownloadFallback
  then show ?thesis
    using requests_download_by_url [of "''/api/download-fallback''" net pg]
    by (simp add: downloadFallback_def)
next
  case DownloadSimple
  then show ?thesis
    using requests_download_by_url [of "''/api/download-simple''" net pg]
    by (simp add: downloadSimple_def)
next
  case Retry
  then show ?thesis using requests_downloadVideo [of net pg] by simp
qed

lemma requests_click:
  "requests (click b net pg dp) = [] \<or>
   requests (click b net pg dp) = [post_json (endpoint b) (payload b pg)]"
  using requests_onClick [of b net pg] by (simp add: click_def)

lemma rung_of_endpoint_endpoint: "rung_of_endpoint (endpoint b) = Some (rung_of_button b)"
  by (cases b) (simp_all add: rung_of_endpoint_def)

lemma attempted_click:
  "attempted (click b net pg dp) = [] \<or> attempted (click b net pg dp) = [rung_of_button b]"
  using requests_click [of b net pg dp]
  by (auto simp: attempted_def List.map_filter_simps post_json_def rung_of_endpoint_endpoint)

lemma updates_onClick_rejected:
  assumes "requests (onClick b net pg) \<noteq> []"
    and "net (post_json (endpoint b) (payload b pg)) = Rejected"
  shows "updates (onClick b net pg) = [downloading_from_zero, try_again]"
proof (cases b)
  case DownloadSelected
  with assms show ?thesis
    by (simp add: downloadVideo_def Let_def on_download_response_def split: if_splits)
next
  case DownloadAlternative
  with assms show ?thesis
    by (simp add: downloadAlternative_def download_by_url_def Let_def
        on_url_download_response_def split: if_splits)
next
  case DownloadFallback
  with assms show ?thesis
    by (simp add: downloadFallback_def download_by_url_def Let_def
        on_url_download_response_def split: if_splits)
next
  case DownloadSimple
  with assms show ?thesis
    by (simp add: downloadSimple_def download_by_url_def Let_def
        on_url_download_response_def split: if_splits)
next
  case Retry
  with assms show ?thesis
    by (simp add: downloadVideo_def Let_def on_download_response_def split: if_splits)
qed

text \<open>
  C2, as stated, fails. When the download of the selected format is reported as failed,
  the handler shows the error and ends: the 480p rung is not requested. The three
  fallback qualities are reached by a click on their own buttons, each through its own
  endpoint.
\<close>

theorem failed_download_is_not_retried:
  "\<not> retries_with_next_rung UserSelected
       (click DownloadSelected (answering format_failed) page0 None)
   \<and> attempted (click DownloadSelected (answering format_failed) page0 None) = [UserSelected]
   \<and> map (\<lambda>b. (attempted (click b (answering format_failed) page0 None), endpoint b))
        [DownloadAlternative, DownloadFallback, DownloadSimple] =
      [([Q480p], ''/api/download-alternative''), ([Q720p], ''/api/download-fallback''),
       ([LowestAvailable], ''/api/download-simple'')]"
  by (simp add: retries_with_next_rung_def attempted_def click_def page0_def is_downloading_def
      downloadVideo_def downloadAlternative_def downloadFallback_def downloadSimple_def
      download_by_url_def Let_def post_json_def List.map_filter_simps rung_of_endpoint_def)

text \<open>
  C2, amended. The client has no automatic fallback. The selected format and the three
  fallback qualities (480p, 720p, lowest) are four handlers, each bound to its own
  button and its own endpoint; one click sends at most one request, to the endpoint of
  the button that was clicked, so at most the rung of that button is attempted; and
  when the fetch is rejected the handler sets the error state and sends nothing
  further.
\<close>

theorem one_click_one_request:
  "(requests (click b net pg dp) = [] \<or>
    requests (click b net pg dp) = [post_json (endpoint b) (payload b pg)])
   \<and> (attempted (click b net pg dp) = [] \<or> attempted (click b net pg dp) = [rung_of_button b])
   \<and> (requests (click b net pg dp) \<noteq> []
       \<and> net (post_json (endpoint b) (payload b pg)) = Rejected
      \<longrightarrow> updates (click b net pg dp) = [downloading_from_zero, try_again])"
proof (intro conjI impI)
  show "requests (click b net pg dp) = [] \<or>
    requests (click b net pg dp) = [post_json (endpoint b) (payload b pg)]"
    by (rule requests_click)
next
  show "attempted (click b net pg dp) = [] \<or> attempted (click b net pg dp) = [rung_of_button b]"
    by (rule attempted_click)
next
  assume h: "requests (click b net pg dp) \<noteq> []
       \<and> net (post_json (endpoint b) (payload b pg)) = Rejected"
  then have on: "click b net pg dp = onClick b net pg"
    by (auto simp: click_def split: if_splits)
  with h show "updates (click b net pg dp) = [downloading_from_zero, try_again]"
    by (simp add: updates_onClick_rejected)
qed

text \<open>The amended statement at one click on each download button, with no network.\<close>

theorem one_click_one_request_witness:
  "requests (click DownloadSelected offline page0 None) =
     [post_json ''/api/download''
        (JObj [(''url'', JStr ''https://youtu.be/abc''), (''format_id'', JStr ''18'')])]
   \<and> attempted (click DownloadSelected offline page0 None) = [UserSelected]
   \<and> updates (click DownloadSelected offline page0 None) = [downloading_from_zero, try_again]
   \<and> attempted (click DownloadAlternative offline page0 None) = [Q480p]
   \<and> attempted (click DownloadFallback offline page0 None) = [Q720p]
   \<and> attempted (click DownloadSimple offline page0 None) = [LowestAvailable]"
proof -
  have r: "requests (click DownloadSelected offline page0 None) =
     [post_json ''/api/download''
        (JObj [(''url'', JStr ''https://youtu.be/abc''), (''format_id'', JStr ''18'')])]"
    by (simp add: click_def page0_def is_downloading_def downloadVideo_def Let_def)
  have a: "attempted (click DownloadAlternative offline page0 None) \<noteq> []"
    "attempted (click DownloadFallback offline page0 None) \<noteq> []"
    "attempted (click DownloadSimple offline page0 None) \<noteq> []"
    "attempted (click DownloadSelected offline page0 None) \<noteq> []"
    by (simp_all add: attempted_def click_def page0_def is_downloading_def downloadVideo_def
        downloadAlternative_def downloadFallback_def downloadSimple_def download_by_url_def
        Let_def post_json_def List.map_filter_simps rung_of_endpoint_def)
  have off: "offline (post_json (endpoint DownloadSelected) (payload DownloadSelected page0))
              = Rejected"
    by (simp add: offline_def)
  show ?thesis
    using r a off
      one_click_one_request [of DownloadSelected offline page0 None]
      one_click_one_request [of DownloadAlternative offline page0 None]
      one_click_one_request [of DownloadFallback offline page0 None]
      one_click_one_request [of DownloadSimple offline page0 None]
    by simp
qed

text \<open>
  The stream handler sends no request at all, so a \<^verbatim>\<open>failed\<close> event starts no retry
  either: it shows the error state and closes the stream.
\<close>

lemma failed_event_shows_error:
  assumes "get_prop ev ''status'' = Some (JStr ''failed'')"
  shows "map_option status (downloadProgress (onmessage sub (Some ev) ob)) = Some (JStr ''error'')
         \<and> \<not> eventSource_open (onmessage sub (Some ev) ob)"
  using assms by (simp add: onmessage_def Let_def)

section \<open>Properties of cancellation\<close>

text \<open>
  In the client, \<^verbatim>\<open>cancelDownload\<close> sends one DELETE request for the identifier and
  clears the progress state only when the response is OK; a response that is not OK
  (not found, conflict) and a rejected fetch leave the state as it is.
\<close>

lemma cancelDownload_clears_only_when_ok:
  "length (requests (cancelDownload net i)) = 1
   \<and> final_progress before (cancelDownload net i) =
       (case net \<lparr>req_url = ''http://localhost:8000/downloads/'' @ i, req_method = ''DELETE'',
                   req_headers = [], req_body = None\<rparr> of
          Rejected \<Rightarrow> before
        | Resolved r \<Rightarrow> if resp_ok r then None else before)"
  by (simp add: cancelDownload_def final_progress_def Let_def split: fetch_result.splits)

text \<open>
  C6. A cancellation keyed by task identifier answers \<^verbatim>\<open>ok\<close> exactly when the task
  exists and is not terminal, and then the task is \<^verbatim>\<open>Cancelled\<close>; for an unknown
  identifier it answers not-found, and for a terminal task it answers already-terminal
  (the conflict), in both cases with the registry unchanged. Other tasks are never
  touched.
\<close>

theorem Cancel_by_task_state:
  "(reg i = None \<longrightarrow> Cancel reg i = (NotFound, reg))
   \<and> (reg i = Some t \<and> terminal (state t) \<longrightarrow> Cancel reg i = (AlreadyTerminal, reg))
   \<and> (reg i = Some t \<and> \<not> terminal (state t) \<longrightarrow>
        fst (Cancel reg i) = Ok \<and> state_of (snd (Cancel reg i)) i = Some Cancelled)
   \<and> (fst (Cancel reg i) = Ok \<longleftrightarrow> (\<exists>t'. reg i = Some t' \<and> \<not> terminal (state t')))
   \<and> (j \<noteq> i \<longrightarrow> snd (Cancel reg i) j = reg j)"
  by (auto simp: Cancel_def state_of_def split: option.splits)

text \<open>
  The theorem on a registry with a running task \<^verbatim>\<open>t1\<close> and a completed task
  \<^verbatim>\<open>t2\<close>.
\<close>

theorem Cancel_by_task_state_witness:
  "Cancel registry0 ''t9'' = (NotFound, registry0)
   \<and> Cancel registry0 ''t2'' = (AlreadyTerminal, registry0)
   \<and> fst (Cancel registry0 ''t1'') = Ok
   \<and> state_of (snd (Cancel registry0 ''t1'')) ''t1'' = Some Cancelled
   \<and> snd (Cancel registry0 ''t1'') ''t2'' = registry0 ''t2''"
  using Cancel_by_task_state [of registry0 "''t9''" "a_task Running" "''t1''"]
    Cancel_by_task_state [of registry0 "''t2''" "a_task Completed" "''t1''"]
    Cancel_by_task_state [of registry0 "''t1''" "a_task Running" "''t2''"]
  by (simp add: registry0_def a_task_def)

section \<open>Properties of the progress percentage\<close>















end
